theory Spec2Isabelle
  imports Main "HOL-Library.Sublist" "HOL-Library.Char_ord" "HOL-Library.List_Lexorder"
begin

section \<open>Samsung Health Extractor: name cleaning\<close>

text \<open>
  Shallow embedding of \<^verbatim>\<open>src/samsung_health_extractor.py\<close> (the polars variant) and,
  where it differs, of \<^verbatim>\<open>src/reedit.py\<close> (the pandas variant). File names are
  modelled as ASCII strings.
\<close>

subsection \<open>Python string primitives used by \<^verbatim>\<open>clean_csv_name\<close>\<close>

text \<open>
  \<^verbatim>\<open>s.replace(old, "")\<close>: one pass from the left, deleting every non-overlapping
  occurrence of \<open>old\<close>. With an empty \<open>old\<close> and an empty replacement Python returns
  the string unchanged.
\<close>

function str_remove :: "string \<Rightarrow> string \<Rightarrow> string" where
  "str_remove old [] = []"
| "str_remove old (c # cs) =
     (if old \<noteq> [] \<and> prefix old (c # cs)
      then str_remove old (drop (length old) (c # cs))
      else c # str_remove old cs)"
  by pat_completeness auto
termination
  by (relation "measure (\<lambda>(old, s). length s)") auto

text \<open>\<^verbatim>\<open>s.find(sub)\<close>: index of the first occurrence; Python's \<open>-1\<close> is \<open>None\<close>.\<close>

fun str_find :: "string \<Rightarrow> string \<Rightarrow> nat option" where
  "str_find sub [] = (if sub = [] then Some 0 else None)"
| "str_find sub (c # cs) =
     (if prefix sub (c # cs) then Some 0 else map_option Suc (str_find sub cs))"

definition is_digit :: "char \<Rightarrow> bool" where
  "is_digit c = (CHR ''0'' \<le> c \<and> c \<le> CHR ''9'')"

definition rstrip_while :: "(char \<Rightarrow> bool) \<Rightarrow> string \<Rightarrow> string" where
  "rstrip_while P s = rev (dropWhile P (rev s))"

text \<open>
  \<^verbatim>\<open>re.sub(r"\d+$", "", s)\<close>. Without the MULTILINE flag \<open>$\<close> matches at the end of
  the string and also just before a newline that ends the string, so a digit run followed
  by one final newline is removed as well and the newline stays.
\<close>

definition strip_trailing_digits :: "string \<Rightarrow> string" where
  "strip_trailing_digits s =
     (if s \<noteq> [] \<and> last s = CHR 0x0A \<and> butlast s \<noteq> [] \<and> is_digit (last (butlast s))
      then rstrip_while is_digit (butlast s) @ [CHR 0x0A]
      else rstrip_while is_digit s)"

text \<open>\<^verbatim>\<open>s.rstrip("._")\<close>\<close>

definition rstrip_dot_underscore :: "string \<Rightarrow> string" where
  "rstrip_dot_underscore s = rstrip_while (\<lambda>c. c = CHR ''.'' \<or> c = CHR ''_'') s"

subsection \<open>\<^verbatim>\<open>clean_csv_name\<close> (identical in both variants)\<close>

definition strip_health :: "string \<Rightarrow> string" where
  "strip_health s = (case str_find ''health'' s of None \<Rightarrow> s | Some i \<Rightarrow> drop (i + 6) s)"

definition clean_csv_name :: "string \<Rightarrow> string" where
  "clean_csv_name name =
     rstrip_dot_underscore (strip_trailing_digits (strip_health (str_remove ''.csv'' name)))"

text \<open>
  The reading of step 1 in the specification: only the first occurrence of \<open>old\<close> is
  removed (Python's \<^verbatim>\<open>s.replace(old, "", 1)\<close>).
\<close>

fun spec_remove_first :: "string \<Rightarrow> string \<Rightarrow> string" where
  "spec_remove_first old [] = []"
| "spec_remove_first old (c # cs) =
     (if old \<noteq> [] \<and> prefix old (c # cs) then drop (length old) (c # cs)
      else c # spec_remove_first old cs)"

section \<open>Tables\<close>

text \<open>
  A polars/pandas data frame: an ordered list of named columns. A column carries its
  dtype and its cells. The dtypes are grouped the way the code tells them apart:
  \<open>Numeric\<close> stands for Int64, Int32, Float64 and Float32 (a cell is given by its
  integer value, the epoch milliseconds that \<^verbatim>\<open>from_epoch\<close> reads), \<open>DateT\<close> cells
  count days and \<open>DatetimeT\<close> cells count milliseconds since the epoch, \<open>OtherT\<close> is
  any other dtype.
\<close>

datatype dtype = Numeric | String | DateT | DatetimeT | OtherT

datatype cell = Null | Num int | Str string | Date int | Datetime int | Other string

type_synonym column = "dtype \<times> cell list"
type_synonym table = "(string \<times> column) list"

definition columns :: "table \<Rightarrow> string list" where
  "columns df = map fst df"

definition height :: "table \<Rightarrow> nat" where
  "height df = (case df of [] \<Rightarrow> 0 | (n, (t, cs)) # rest \<Rightarrow> length cs)"

definition width :: "table \<Rightarrow> nat" where
  "width df = length df"

definition is_empty :: "table \<Rightarrow> bool" where
  "is_empty df = (height df = 0)"

definition null_count :: "column \<Rightarrow> nat" where
  "null_count c = length (filter (\<lambda>x. x = Null) (snd c))"

definition row_all_null :: "table \<Rightarrow> nat \<Rightarrow> bool" where
  "row_all_null df i = list_all (\<lambda>(n, (t, cs)). cs ! i = Null) df"

definition keep_rows :: "(nat \<Rightarrow> bool) \<Rightarrow> table \<Rightarrow> table" where
  "keep_rows keep df =
     map (\<lambda>(n, (t, cs)). (n, (t, map (\<lambda>i. cs ! i) (filter keep [0..<length cs])))) df"

text \<open>\<^verbatim>\<open>df.filter(~pl.all_horizontal(pl.all().is_null()))\<close>\<close>

definition drop_null_rows :: "table \<Rightarrow> table" where
  "drop_null_rows df = keep_rows (\<lambda>i. \<not> row_all_null df i) df"

record path =
  parent :: string
  name :: string

text \<open>
  The file system as \<^verbatim>\<open>read_csv(path, skip_rows=1, ...)\<close> sees it: the table read from
  a path, or \<open>None\<close> when reading raises.
\<close>

type_synonym files = "path \<Rightarrow> table option"

section \<open>The source catalog\<close>

text \<open>\<^verbatim>\<open>csv_has_data\<close> of the polars variant; any exception gives \<open>False\<close>.\<close>

definition csv_has_data :: "files \<Rightarrow> path \<Rightarrow> nat \<Rightarrow> bool" where
  "csv_has_data fs file_path min_rows =
     (case fs file_path of
        None \<Rightarrow> False
      | Some df \<Rightarrow>
          if is_empty df then False
          else if sum_list (map (\<lambda>(n, c). null_count c) df) = height df * width df then False
          else let df_clean = drop_null_rows df in
            if is_empty df_clean then False
            else if height df_clean \<le> min_rows then False
            else list_ex (\<lambda>(n, c). null_count c < height df_clean) df_clean)"

datatype verdict = Kept | Filtered_ignored | Filtered_empty | Filtered_not_in_config

text \<open>
  The three filters of \<^verbatim>\<open>get_cleaned_csv_names\<close>, in the order of the source; the
  verdict names the log message of the \<^verbatim>\<open>continue\<close> taken. \<open>ignore_set\<close> is what
  \<^verbatim>\<open>read_ignore_list\<close> returned and \<open>enabled_csvs\<close> what was read from the
  configuration; each is the empty set when its filter is switched off.
\<close>

definition filter_verdict ::
  "files \<Rightarrow> bool \<Rightarrow> string set \<Rightarrow> bool \<Rightarrow> bool \<Rightarrow> string set \<Rightarrow> path \<Rightarrow> verdict" where
  "filter_verdict fs filter_ignored ignore_set filter_empty filter_config enabled_csvs file_path =
     (let cleaned_name = clean_csv_name (name file_path) in
      if filter_ignored \<and> cleaned_name \<in> ignore_set then Filtered_ignored
      else if filter_empty \<and> \<not> csv_has_data fs file_path 10 then Filtered_empty
      else if filter_config \<and> enabled_csvs \<noteq> {} \<and> cleaned_name \<notin> enabled_csvs
        then Filtered_not_in_config
      else Kept)"

text \<open>
  The same filters in \<^verbatim>\<open>reedit.py\<close>: the third test is
  \<^verbatim>\<open>filter_config and cleaned_name not in enabled_csvs\<close>. Its \<^verbatim>\<open>_csv_has_data\<close>
  reads the file with pandas and is taken as the predicate \<open>has_data\<close>.
\<close>

definition reedit_filter_verdict ::
  "(path \<Rightarrow> bool) \<Rightarrow> bool \<Rightarrow> string set \<Rightarrow> bool \<Rightarrow> bool \<Rightarrow> string set \<Rightarrow> path \<Rightarrow> verdict" where
  "reedit_filter_verdict has_data filter_ignored ignore_set filter_empty filter_config enabled_csvs
      file_path =
     (let cleaned_name = clean_csv_name (name file_path) in
      if filter_ignored \<and> cleaned_name \<in> ignore_set then Filtered_ignored
      else if filter_empty \<and> \<not> has_data file_path then Filtered_empty
      else if filter_config \<and> cleaned_name \<notin> enabled_csvs then Filtered_not_in_config
      else Kept)"

text \<open>\<^verbatim>\<open>s.split(".")\<close> and \<^verbatim>\<open>".".join(parts)\<close>\<close>

fun split_dot :: "string \<Rightarrow> string list" where
  "split_dot [] = [[]]"
| "split_dot (c # cs) =
     (if c = CHR ''.'' then [] # split_dot cs
      else (case split_dot cs of [] \<Rightarrow> [[c]] | p # ps \<Rightarrow> (c # p) # ps))"

fun join_dot :: "string list \<Rightarrow> string" where
  "join_dot [] = []"
| "join_dot [p] = p"
| "join_dot (p # q # ps) = p @ ''.'' @ join_dot (q # ps)"

text \<open>
  The three branches on \<^verbatim>\<open>len(parts)\<close>: the category, and the subcategory when the
  branch records one.
\<close>

definition classify :: "string \<Rightarrow> string \<times> string option" where
  "classify cleaned_name =
     (let parts = split_dot cleaned_name in
      if length parts = 1 then (hd parts, None)
      else if length parts = 2 then (hd parts, None)
      else (join_dot (take 2 parts), Some (join_dot (drop 2 parts))))"

record cat_entry =
  subcategories :: "string list"
  files :: "string list"

text \<open>The dictionary \<^verbatim>\<open>categories\<close>, in insertion order.\<close>

type_synonym categories = "(string \<times> cat_entry) list"

definition ensure_category :: "string \<Rightarrow> categories \<Rightarrow> categories" where
  "ensure_category category cats =
     (if category \<in> set (map fst cats) then cats
      else cats @ [(category, \<lparr>subcategories = [], files = []\<rparr>)])"

definition update_category :: "string \<Rightarrow> (cat_entry \<Rightarrow> cat_entry) \<Rightarrow> categories \<Rightarrow> categories" where
  "update_category category f cats = map (\<lambda>(k, e). if k = category then (k, f e) else (k, e)) cats"

definition add_name :: "categories \<Rightarrow> string \<Rightarrow> categories" where
  "add_name cats cleaned_name =
     (case classify cleaned_name of
        (category, None) \<Rightarrow>
          update_category category (\<lambda>e. e\<lparr>files := files e @ [cleaned_name]\<rparr>)
            (ensure_category category cats)
      | (category, Some subcategory) \<Rightarrow>
          update_category category
            (\<lambda>e. if subcategory \<in> set (subcategories e) then e
                 else e\<lparr>subcategories := subcategories e @ [subcategory]\<rparr>)
            (ensure_category category cats))"

definition sort_categories :: "categories \<Rightarrow> categories" where
  "sort_categories cats =
     sort_key fst (map (\<lambda>(k, e). (k, \<lparr>subcategories = sort (subcategories e), files = sort (files e)\<rparr>)) cats)"

text \<open>\<^verbatim>\<open>get_cleaned_csv_names\<close> with \<^verbatim>\<open>hierarchical=False\<close> and with \<^verbatim>\<open>hierarchical=True\<close>.\<close>

definition get_cleaned_csv_names_flat ::
  "files \<Rightarrow> path list \<Rightarrow> bool \<Rightarrow> string set \<Rightarrow> bool \<Rightarrow> bool \<Rightarrow> string set \<Rightarrow> string list" where
  "get_cleaned_csv_names_flat fs csv_paths filter_ignored ignore_set filter_empty filter_config
      enabled_csvs =
     map (\<lambda>p. clean_csv_name (name p))
       (filter (\<lambda>p. filter_verdict fs filter_ignored ignore_set filter_empty filter_config
                      enabled_csvs p = Kept) csv_paths)"

definition get_cleaned_csv_names ::
  "files \<Rightarrow> path list \<Rightarrow> bool \<Rightarrow> string set \<Rightarrow> bool \<Rightarrow> bool \<Rightarrow> string set \<Rightarrow> categories" where
  "get_cleaned_csv_names fs csv_paths filter_ignored ignore_set filter_empty filter_config
      enabled_csvs =
     sort_categories (foldl add_name []
       (get_cleaned_csv_names_flat fs csv_paths filter_ignored ignore_set filter_empty
          filter_config enabled_csvs))"

definition reedit_get_cleaned_csv_names_flat ::
  "(path \<Rightarrow> bool) \<Rightarrow> path list \<Rightarrow> bool \<Rightarrow> string set \<Rightarrow> bool \<Rightarrow> bool \<Rightarrow> string set \<Rightarrow> string list" where
  "reedit_get_cleaned_csv_names_flat has_data csv_paths filter_ignored ignore_set filter_empty
      filter_config enabled_csvs =
     map (\<lambda>p. clean_csv_name (name p))
       (filter (\<lambda>p. reedit_filter_verdict has_data filter_ignored ignore_set filter_empty
                      filter_config enabled_csvs p = Kept) csv_paths)"

definition reedit_get_cleaned_csv_names ::
  "(path \<Rightarrow> bool) \<Rightarrow> path list \<Rightarrow> bool \<Rightarrow> string set \<Rightarrow> bool \<Rightarrow> bool \<Rightarrow> string set \<Rightarrow> categories" where
  "reedit_get_cleaned_csv_names has_data csv_paths filter_ignored ignore_set filter_empty
      filter_config enabled_csvs =
     sort_categories (foldl add_name []
       (reedit_get_cleaned_csv_names_flat has_data csv_paths filter_ignored ignore_set
          filter_empty filter_config enabled_csvs))"

section \<open>The combination engine\<close>

subsection \<open>Library operations\<close>

text \<open>
  The polars operations whose results the code does not determine are parameters of the
  model; each returns \<open>None\<close> when it raises. \<open>parse_datetime\<close> reads one timestamp
  string as epoch milliseconds (\<open>None\<close>: the string does not parse); \<open>join_full\<close> is
  \<^verbatim>\<open>left.join(right, on=key, how="full", coalesce=True)\<close>; \<open>sort_table df by descending\<close>
  is \<^verbatim>\<open>df.sort\<close>; \<open>cast_string\<close> is \<^verbatim>\<open>cast(pl.String)\<close> on one column;
  \<open>sentinel_to_null\<close>, \<open>interpolate\<close> and \<open>round2\<close> are the three steps applied to the
  \<^verbatim>\<open>temperature\<close> column; \<open>write_csv\<close> tells whether the file could be written.
\<close>

record polars =
  parse_datetime :: "string \<Rightarrow> int option"
  join_full :: "table \<Rightarrow> table \<Rightarrow> string \<Rightarrow> table option"
  sort_table :: "table \<Rightarrow> string \<Rightarrow> bool \<Rightarrow> table option"
  cast_string :: "column \<Rightarrow> column option"
  fill_null :: "table \<Rightarrow> cell \<Rightarrow> table option"
  sentinel_to_null :: "column \<Rightarrow> column option"
  interpolate :: "column \<Rightarrow> column option"
  round2 :: "column \<Rightarrow> column option"
  write_csv :: "string \<Rightarrow> table \<Rightarrow> bool"

subsection \<open>Column operations the code determines\<close>

text \<open>\<^verbatim>\<open>df.with_columns(expr.alias(n))\<close>: replaces the column \<open>n\<close> in place, or appends it.\<close>

definition with_column :: "string \<Rightarrow> column \<Rightarrow> table \<Rightarrow> table" where
  "with_column n c df =
     (if n \<in> set (columns df) then map (\<lambda>(m, d). if m = n then (m, c) else (m, d)) df
      else df @ [(n, c)])"

text \<open>\<^verbatim>\<open>df.select(cols)\<close> for names that are all in \<open>df\<close>; a repeated name raises.\<close>

definition select_columns :: "string list \<Rightarrow> table \<Rightarrow> table option" where
  "select_columns cols df =
     (if distinct cols then Some (List.map_filter (\<lambda>n. map_option (Pair n) (map_of df n)) cols)
      else None)"

text \<open>
  \<^verbatim>\<open>df.rename(mapping)\<close>: raises when a key of the mapping is not a column, or when two
  columns end up with the same name.
\<close>

definition rename :: "(string \<times> string) list \<Rightarrow> table \<Rightarrow> table option" where
  "rename m df =
     (if \<not> list_all (\<lambda>(k, v). k \<in> set (columns df)) m then None
      else let df' = map (\<lambda>(n, c). (case map_of m n of None \<Rightarrow> n | Some n' \<Rightarrow> n', c)) df in
        if distinct (columns df') then Some df' else None)"

text \<open>\<^verbatim>\<open>pl.from_epoch(col, time_unit="ms")\<close> and \<^verbatim>\<open>.dt.date()\<close>\<close>

definition from_epoch_ms :: "column \<Rightarrow> column" where
  "from_epoch_ms c = (DatetimeT, map (\<lambda>x. case x of Num n \<Rightarrow> Datetime n | _ \<Rightarrow> Null) (snd c))"

definition dt_date :: "column \<Rightarrow> column" where
  "dt_date c =
     (DateT, map (\<lambda>x. case x of Datetime n \<Rightarrow> Date (n div 86400000) | _ \<Rightarrow> Null) (snd c))"

text \<open>
  \<^verbatim>\<open>pl.col(k).str.to_datetime()\<close>. The call leaves \<^verbatim>\<open>strict\<close> at its default
  \<^verbatim>\<open>True\<close>: it raises when the column is not a string column or when one of its
  strings does not parse.
\<close>

definition str_to_datetime :: "(string \<Rightarrow> int option) \<Rightarrow> column \<Rightarrow> column option" where
  "str_to_datetime parse c =
     (if fst c \<noteq> String then None
      else if list_ex (\<lambda>x. case x of Str s \<Rightarrow> parse s = None | _ \<Rightarrow> False) (snd c) then None
      else Some (DatetimeT,
        map (\<lambda>x. case x of
               Str s \<Rightarrow> (case parse s of None \<Rightarrow> Null | Some n \<Rightarrow> Datetime n)
             | _ \<Rightarrow> Null) (snd c)))"

text \<open>
  The body of the \<^verbatim>\<open>try\<close> that converts the key column \<open>k\<close> (lines 565 to 585 and
  615 to 633); \<open>None\<close> when it raises.
\<close>

definition convert_key ::
  "(string \<Rightarrow> int option) \<Rightarrow> bool \<Rightarrow> string \<Rightarrow> table \<Rightarrow> table option" where
  "convert_key parse use_datetime k df =
     (case map_of df k of
        None \<Rightarrow> None
      | Some c \<Rightarrow>
          if fst c = Numeric
          then Some (with_column k
                 (if use_datetime then from_epoch_ms c else dt_date (from_epoch_ms c)) df)
          else (case str_to_datetime parse c of
                  None \<Rightarrow> None
                | Some d \<Rightarrow> Some (with_column k (if use_datetime then d else dt_date d) df)))"

text \<open>
  \<^verbatim>\<open>if merge_key in df.columns: try: ... except Exception: log\<close>: a conversion that raises
  leaves the table as it was.
\<close>

definition normalize_key ::
  "(string \<Rightarrow> int option) \<Rightarrow> bool \<Rightarrow> string \<Rightarrow> table \<Rightarrow> table" where
  "normalize_key parse use_datetime k df =
     (if k \<in> set (columns df)
      then (case convert_key parse use_datetime k df of None \<Rightarrow> df | Some df' \<Rightarrow> df')
      else df)"

text \<open>
  For a source table the flag is \<^verbatim>\<open>merge_key_rename == "datetime"\<close> (line 565), for
  the accumulated table it is \<^verbatim>\<open>merge_key == "datetime"\<close> (line 615); the column
  converted is \<^verbatim>\<open>merge_key\<close> in both.
\<close>

definition normalize_source_key ::
  "(string \<Rightarrow> int option) \<Rightarrow> string \<Rightarrow> string \<Rightarrow> table \<Rightarrow> table" where
  "normalize_source_key parse merge_key_rename merge_key df =
     normalize_key parse (merge_key_rename = ''datetime'') merge_key df"

definition normalize_combined_key ::
  "(string \<Rightarrow> int option) \<Rightarrow> string \<Rightarrow> table \<Rightarrow> table" where
  "normalize_combined_key parse merge_key combined_df =
     normalize_key parse (merge_key = ''datetime'') merge_key combined_df"

text \<open>
  Lines 512 to 559: duplicate the key column under its alias, rename the key to its
  standard name, then apply the other renames. \<open>None\<close> when a polars call raises.
\<close>

definition rename_step ::
  "string \<Rightarrow> string \<Rightarrow> (string \<times> string) list \<Rightarrow> table \<Rightarrow> table option" where
  "rename_step source_merge_key merge_key_rename rename_columns df =
     Option.bind
       (case map_of rename_columns source_merge_key of
          None \<Rightarrow> Some df
        | Some target \<Rightarrow>
            (case map_of df source_merge_key of
               None \<Rightarrow> None
             | Some c \<Rightarrow> Some (with_column target c df)))
       (\<lambda>df1. Option.bind
          (if source_merge_key \<in> set (columns df1) \<and> merge_key_rename \<noteq> source_merge_key
           then rename [(source_merge_key, merge_key_rename)] df1 else Some df1)
          (\<lambda>df2. let filtered_rename_columns =
                        filter (\<lambda>(k, v). k \<noteq> source_merge_key) rename_columns
                 in if filtered_rename_columns \<noteq> [] then rename filtered_rename_columns df2
                    else Some df2))"

subsection \<open>Configuration\<close>

text \<open>
  One entry of \<^verbatim>\<open>sources\<close>. A key that the code reads with a default depending on
  other values is an option (\<open>None\<close>: the key is absent); \<^verbatim>\<open>required\<close>,
  \<^verbatim>\<open>columns_to_include\<close> and \<^verbatim>\<open>rename_columns\<close> carry their defaults
  \<open>False\<close>, \<open>[]\<close> and \<open>{}\<close>. \<^verbatim>\<open>rename_columns\<close> is a dictionary, listed in
  insertion order.
\<close>

record source_spec =
  csv_name :: string
  priority :: "int option"
  required :: bool
  columns_to_include :: "string list"
  rename_columns :: "(string \<times> string) list"
  merge_key :: "string option"
  merge_key_rename :: "string option"

text \<open>
  \<^verbatim>\<open>output_structure\<close>, with \<^verbatim>\<open>data_processing\<close> flattened into it.
  \<open>fill_missing_values = None\<close> stands for an absent or falsy value.
\<close>

record output_structure =
  primary_sort :: "string option"
  sort_ascending :: bool
  final_columns :: "string list"
  fill_missing_values :: "cell option"
  interpolate_temperature :: bool

record combination =
  output_file :: "string option"
  sources :: "source_spec list"
  output_config :: output_structure

type_synonym combination_config = "(string \<times> combination) list"

subsection \<open>Processing one source\<close>

definition source_merge_key :: "source_spec \<Rightarrow> string" where
  "source_merge_key source = (case merge_key source of None \<Rightarrow> ''day_time'' | Some k \<Rightarrow> k)"

definition source_merge_key_rename :: "source_spec \<Rightarrow> string" where
  "source_merge_key_rename source =
     (case merge_key_rename source of None \<Rightarrow> source_merge_key source | Some k \<Rightarrow> k)"

text \<open>
  Lines 476 to 509: the requested columns plus the source's key, and the projection.
  \<open>None\<close> is the \<^verbatim>\<open>no_required_columns\<close> exit or an exception of \<^verbatim>\<open>select\<close>.
\<close>

definition project_columns :: "source_spec \<Rightarrow> table \<Rightarrow> table option" where
  "project_columns source df =
     (let columns_to_include_with_key =
            columns_to_include source @
            (if source_merge_key source \<notin> set (columns_to_include source) \<and>
                source_merge_key source \<in> set (columns df)
             then [source_merge_key source] else [])
      in if columns_to_include_with_key \<noteq> []
         then (let available_columns =
                     filter (\<lambda>col. col \<in> set (columns df)) columns_to_include_with_key
               in if available_columns = [] then None else select_columns available_columns df)
         else Some df)"

text \<open>Lines 476 to 587: the processed source table, or \<open>None\<close> when the source fails.\<close>

definition prepare_source ::
  "(string \<Rightarrow> int option) \<Rightarrow> source_spec \<Rightarrow> string \<Rightarrow> table \<Rightarrow> table option" where
  "prepare_source parse source key df =
     Option.bind (project_columns source df)
       (\<lambda>df1. Option.bind
          (rename_step (source_merge_key source) (source_merge_key_rename source)
             (rename_columns source) df1)
          (\<lambda>df2. Some (normalize_source_key parse (source_merge_key_rename source) key df2)))"

text \<open>
  The two variables the source loop carries: \<^verbatim>\<open>combined_df\<close> and \<^verbatim>\<open>merge_key\<close>
  (here \<open>combo_key\<close>), both \<^verbatim>\<open>None\<close> at the start.
\<close>

record engine_state =
  combined_df :: "table option"
  combo_key :: "string option"

definition initial_state :: engine_state where
  "initial_state = \<lparr>combined_df = None, combo_key = None\<rparr>"

datatype attempt = Loaded engine_state | Failed engine_state

text \<open>
  The \<^verbatim>\<open>try\<close> block of one source (lines 448 to 654). \<open>Failed\<close> is the
  \<^verbatim>\<open>no_required_columns\<close> exit or a caught exception; both end in
  \<^verbatim>\<open>if required: break else: continue\<close>.
\<close>

definition process_source :: "polars \<Rightarrow> files \<Rightarrow> path \<Rightarrow> source_spec \<Rightarrow> engine_state \<Rightarrow> attempt" where
  "process_source L fs csv_file_path source st =
     (case fs csv_file_path of
        None \<Rightarrow> Failed st
      | Some df \<Rightarrow>
          let k = (case combo_key st of None \<Rightarrow> source_merge_key_rename source | Some k \<Rightarrow> k);
              st1 = st\<lparr>combo_key := Some k\<rparr>
          in (case prepare_source (parse_datetime L) source k df of
                None \<Rightarrow> Failed st1
              | Some df' \<Rightarrow>
                  (case combined_df st1 of
                     None \<Rightarrow> Loaded (st1\<lparr>combined_df := Some df'\<rparr>)
                   | Some cdf \<Rightarrow>
                       let cdf' = normalize_combined_key (parse_datetime L) k cdf
                       in (case join_full L cdf' df' k of
                             None \<Rightarrow> Failed (st1\<lparr>combined_df := Some cdf'\<rparr>)
                           | Some joined \<Rightarrow> Loaded (st1\<lparr>combined_df := Some joined\<rparr>)))))"

definition find_csv :: "path list \<Rightarrow> string \<Rightarrow> path option" where
  "find_csv csv_paths wanted = find (\<lambda>file_path. clean_csv_name (name file_path) = wanted) csv_paths"

text \<open>The loop over the sorted sources; \<^verbatim>\<open>break\<close> returns the state reached so far.\<close>

fun process_sources ::
  "polars \<Rightarrow> files \<Rightarrow> path list \<Rightarrow> source_spec list \<Rightarrow> engine_state \<Rightarrow> engine_state" where
  "process_sources L fs csv_paths [] st = st"
| "process_sources L fs csv_paths (source # rest) st =
     (case find_csv csv_paths (csv_name source) of
        None \<Rightarrow>
          if required source then st else process_sources L fs csv_paths rest st
      | Some csv_file_path \<Rightarrow>
          (case process_source L fs csv_file_path source st of
             Loaded st' \<Rightarrow> process_sources L fs csv_paths rest st'
           | Failed st' \<Rightarrow>
               if required source then st' else process_sources L fs csv_paths rest st'))"

subsection \<open>The output pipeline\<close>

text \<open>
  Lines 671 to 679: a date key is widened to a timestamp for sorting. The key is passed as
  a string; Python's \<^verbatim>\<open>None\<close> and the empty string are both falsy and are both
  passed as \<open>[]\<close>.
\<close>

definition widen_date_key :: "string \<Rightarrow> table \<Rightarrow> table" where
  "widen_date_key k df =
     (if k \<noteq> [] \<and> k \<in> set (columns df)
      then (case map_of df k of
              Some (DateT, cs) \<Rightarrow>
                with_column k
                  (DatetimeT, map (\<lambda>x. case x of Date d \<Rightarrow> Datetime (d * 86400000) | _ \<Rightarrow> Null) cs) df
            | _ \<Rightarrow> df)
      else df)"

text \<open>Lines 682 to 685; an exception of \<^verbatim>\<open>sort\<close> is not caught here.\<close>

definition sort_output :: "polars \<Rightarrow> output_structure \<Rightarrow> string \<Rightarrow> table \<Rightarrow> table option" where
  "sort_output L oc k df =
     (let sort_by = (case primary_sort oc of None \<Rightarrow> k | Some c \<Rightarrow> c)
      in if sort_by \<noteq> [] \<and> sort_by \<in> set (columns df)
         then sort_table L df sort_by (\<not> sort_ascending oc) else Some df)"

text \<open>
  Lines 689 to 712: the key goes back to a string. When the first attempt raises, the
  handler casts the column again, and an exception of that second cast escapes.
\<close>

definition key_to_string :: "polars \<Rightarrow> string \<Rightarrow> table \<Rightarrow> table option" where
  "key_to_string L k df =
     (if k \<noteq> [] \<and> k \<in> set (columns df)
      then (case map_of df k of
              None \<Rightarrow> Some df
            | Some c \<Rightarrow>
                (case (if fst c = DatetimeT
                       then (if k = ''datetime'' then cast_string L c
                             else cast_string L (dt_date c))
                       else cast_string L c) of
                   Some c' \<Rightarrow> Some (with_column k c' df)
                 | None \<Rightarrow> map_option (\<lambda>c'. with_column k c' df) (cast_string L c)))
      else Some df)"

text \<open>Lines 715 to 726.\<close>

definition select_final :: "string list \<Rightarrow> table \<Rightarrow> table option" where
  "select_final wanted df =
     (if wanted \<noteq> []
      then (let available_final_columns = filter (\<lambda>col. col \<in> set (columns df)) wanted
            in if available_final_columns \<noteq> [] then select_columns available_final_columns df
               else Some df)
      else Some df)"

text \<open>Lines 729 to 732.\<close>

definition fill_missing :: "polars \<Rightarrow> output_structure \<Rightarrow> table \<Rightarrow> table option" where
  "fill_missing L oc df =
     (case fill_missing_values oc of None \<Rightarrow> Some df | Some fill_value \<Rightarrow> fill_null L df fill_value)"

text \<open>
  Lines 735 to 755: three assignments inside one \<^verbatim>\<open>try\<close>; when one raises, the
  table keeps the columns assigned before it.
\<close>

definition interpolate_temp :: "polars \<Rightarrow> output_structure \<Rightarrow> table \<Rightarrow> table" where
  "interpolate_temp L oc df =
     (if interpolate_temperature oc \<and> ''temperature'' \<in> set (columns df)
      then (case map_of df ''temperature'' of
              None \<Rightarrow> df
            | Some c \<Rightarrow>
                (case sentinel_to_null L c of
                   None \<Rightarrow> df
                 | Some c1 \<Rightarrow>
                     (case interpolate L c1 of
                        None \<Rightarrow> with_column ''temperature'' c1 df
                      | Some c2 \<Rightarrow>
                          (case round2 L c2 of
                             None \<Rightarrow> with_column ''temperature'' c2 df
                           | Some c3 \<Rightarrow> with_column ''temperature'' c3 df))))
      else df)"

text \<open>Lines 758 to 764: every non-null cell becomes \<open>1\<close>.\<close>

definition flatten_sexual_activity :: "table \<Rightarrow> table" where
  "flatten_sexual_activity df =
     (case map_of df ''sexual_activity'' of
        None \<Rightarrow> df
      | Some c \<Rightarrow>
          with_column ''sexual_activity''
            (Numeric, map (\<lambda>x. if x \<noteq> Null then Num 1 else Null) (snd c)) df)"

text \<open>
  Lines 668 to 767: the table that is written, or \<open>None\<close> when an exception escapes to
  the handler of the combination.
\<close>

definition post_process :: "polars \<Rightarrow> output_structure \<Rightarrow> string \<Rightarrow> table \<Rightarrow> table option" where
  "post_process L oc k df =
     Option.bind (sort_output L oc k (widen_date_key k df))
       (\<lambda>d1. Option.bind (key_to_string L k d1)
          (\<lambda>d2. Option.bind (select_final (final_columns oc) d2)
             (\<lambda>d3. Option.bind (fill_missing L oc d3)
                (\<lambda>d4. Some (drop_null_rows (flatten_sexual_activity (interpolate_temp L oc d4)))))))"

subsection \<open>One combination, and the run\<close>

text \<open>
  What the run records for a combination: the log message of the branch taken, and for
  \<^verbatim>\<open>output_created\<close> the path and the table written.
\<close>

datatype outcome =
  No_sources | Output_created string table | No_data_to_output | Combination_processing_error

text \<open>Lines 656 to 802.\<close>

definition finish_combination :: "polars \<Rightarrow> combination \<Rightarrow> engine_state \<Rightarrow> outcome" where
  "finish_combination L combo st =
     (case combined_df st of
        None \<Rightarrow> No_data_to_output
      | Some df \<Rightarrow>
          if is_empty df then No_data_to_output
          else (case post_process L (output_config combo)
                       (case combo_key st of None \<Rightarrow> [] | Some k \<Rightarrow> k) df of
                  None \<Rightarrow> Combination_processing_error
                | Some out \<Rightarrow>
                    let f = (case output_file combo of None \<Rightarrow> ''unknown.csv'' | Some f \<Rightarrow> f)
                    in if write_csv L f out then Output_created f out
                       else Combination_processing_error))"

definition sort_priority :: "source_spec \<Rightarrow> int" where
  "sort_priority source = (case priority source of None \<Rightarrow> 999 | Some p \<Rightarrow> p)"

text \<open>
  One iteration of the loop over the combinations. \<^verbatim>\<open>sources.sort(key=...)\<close> sorts the
  list held by the configuration in place (a stable sort), so the iteration returns the
  combination as the caller sees it afterwards, together with the outcome.
\<close>

definition run_combination ::
  "polars \<Rightarrow> files \<Rightarrow> path list \<Rightarrow> combination \<Rightarrow> combination \<times> outcome" where
  "run_combination L fs csv_paths combo =
     (if sources combo = [] then (combo, No_sources)
      else let sorted = sort_key sort_priority (sources combo);
               combo' = combo\<lparr>sources := sorted\<rparr>
           in (combo', finish_combination L combo'
                         (process_sources L fs csv_paths sorted initial_state)))"

text \<open>
  \<^verbatim>\<open>process_data_combinations\<close>: the configuration after the run and the outcome of
  every combination, in order. No exception leaves the loop.
\<close>

definition process_data_combinations ::
  "polars \<Rightarrow> files \<Rightarrow> path list \<Rightarrow> combination_config \<Rightarrow> combination_config \<times> outcome list" where
  "process_data_combinations L fs csv_paths config =
     (map (\<lambda>(combo_name, combo). (combo_name, fst (run_combination L fs csv_paths combo))) config,
      map (\<lambda>(combo_name, combo). snd (run_combination L fs csv_paths combo)) config)"

text \<open>
  A library in which every open operation raises and only writing succeeds: a run that
  creates an output under it has reached none of these operations.
\<close>

definition raising_library :: polars where
  "raising_library =
     \<lparr>parse_datetime = (\<lambda>s. None), join_full = (\<lambda>l r k. None),
      sort_table = (\<lambda>df by descending. None), cast_string = (\<lambda>c. None),
      fill_null = (\<lambda>df v. None), sentinel_to_null = (\<lambda>c. None), interpolate = (\<lambda>c. None),
      round2 = (\<lambda>c. None), write_csv = (\<lambda>f df. True)\<rparr>"

subsection \<open>Key conversion in \<^verbatim>\<open>reedit.py\<close>\<close>

text \<open>
  \<^verbatim>\<open>pd.to_datetime(col, errors='coerce')\<close> followed by \<^verbatim>\<open>.dt.date\<close> on a string
  column (lines 373 and 375): a string that does not parse becomes null.
\<close>

definition reedit_convert_strings :: "(string \<Rightarrow> int option) \<Rightarrow> cell list \<Rightarrow> cell list" where
  "reedit_convert_strings parse cs =
     map (\<lambda>x. case x of
            Str s \<Rightarrow> (case parse s of None \<Rightarrow> Null | Some n \<Rightarrow> Date (n div 86400000))
          | _ \<Rightarrow> Null) cs"

subsection \<open>Example inputs\<close>

definition steps_path :: path where
  "steps_path = \<lparr>parent = ''Samsung Health/dump'', name = ''com.samsung.health.steps.20230101.csv''\<rparr>"

definition steps_source :: source_spec where
  "steps_source =
     \<lparr>csv_name = ''.steps'', priority = Some 1, required = True, columns_to_include = [],
      rename_columns = [], merge_key = None, merge_key_rename = None\<rparr>"

definition sleep_source :: source_spec where
  "sleep_source =
     \<lparr>csv_name = ''.sleep'', priority = Some 2, required = True, columns_to_include = [],
      rename_columns = [], merge_key = None, merge_key_rename = None\<rparr>"

definition default_output :: output_structure where
  "default_output =
     \<lparr>primary_sort = None, sort_ascending = True, final_columns = [],
      fill_missing_values = None, interpolate_temperature = False\<rparr>"

text \<open>A file system holding one file, whose table is \<open>df\<close>.\<close>

definition only_steps :: "table \<Rightarrow> files" where
  "only_steps df = (\<lambda>p. if p = steps_path then Some df else None)"




text \<open>A parser that reads one timestamp and rejects every other string.\<close>

definition example_parse :: "string \<Rightarrow> int option" where
  "example_parse s = (if s = ''2023-01-01 12:00:00'' then Some 1672574400000 else None)"

section \<open>Properties of name cleaning\<close>

lemma str_remove_absent:
  "str_find old s = None \<Longrightarrow> str_remove old s = s"
  by (induction s) (auto split: if_splits)

lemma str_remove_at_first:
  assumes "old \<noteq> []"
  shows "str_find old (u @ old @ v) = Some (length u) \<Longrightarrow>
         str_remove old (u @ old @ v) = u @ str_remove old v"
proof (induction u)
  case Nil
  from assms obtain c cs where old: "old = c # cs" by (cases old) auto
  show ?case by (simp add: old)
next
  case (Cons a u)
  from Cons.prems have np: "\<not> prefix old (a # u @ old @ v)"
    by (auto split: if_splits)
  with Cons.prems have "str_find old (u @ old @ v) = Some (length u)"
    by (auto split: if_splits)
  with Cons.IH np show ?case by simp
qed

text \<open>
  C6 (as stated, refuted): cleaning \<^verbatim>\<open>com.samsung.health.sleep.20230101.csv\<close> does not
  return \<^verbatim>\<open>sleep\<close>: the dot that follows \<^verbatim>\<open>health\<close> is kept.
\<close>

theorem C6_clean_examples_counterexample:
  "clean_csv_name ''com.samsung.health.sleep.20230101.csv'' \<noteq> ''sleep''"
  by (simp add: clean_csv_name_def strip_health_def strip_trailing_digits_def
      rstrip_dot_underscore_def rstrip_while_def is_digit_def)

text \<open>
  C6 (amended): cleaning \<^verbatim>\<open>com.samsung.health.sleep.20230101.csv\<close> returns exactly
  \<^verbatim>\<open>.sleep\<close> and cleaning \<^verbatim>\<open>com.samsung.health.exercise20230101123045.csv\<close>
  returns exactly \<^verbatim>\<open>.exercise\<close>, each with the leading dot.
\<close>

theorem C6_clean_examples:
  "clean_csv_name ''com.samsung.health.sleep.20230101.csv'' = ''.sleep'' \<and>
   clean_csv_name ''com.samsung.health.exercise20230101123045.csv'' = ''.exercise''"
  by (simp add: clean_csv_name_def strip_health_def strip_trailing_digits_def
      rstrip_dot_underscore_def rstrip_while_def is_digit_def)

text \<open>
  C7 (as stated, refuted): on \<^verbatim>\<open>a.csvb.csv\<close> the first step of the code removes both
  occurrences of \<^verbatim>\<open>.csv\<close>, whereas removing only the first one would leave
  \<^verbatim>\<open>ab.csv\<close>; the cleaned name is \<^verbatim>\<open>ab\<close>.
\<close>

theorem C7_first_occurrence_counterexample:
  "str_remove ''.csv'' ''a.csvb.csv'' \<noteq> spec_remove_first ''.csv'' ''a.csvb.csv'' \<and>
   clean_csv_name ''a.csvb.csv'' = ''ab''"
  by (simp add: clean_csv_name_def strip_health_def strip_trailing_digits_def
      rstrip_dot_underscore_def rstrip_while_def is_digit_def)

text \<open>
  C7 (amended): the first step of name cleaning removes every occurrence of \<^verbatim>\<open>.csv\<close>
  found in one left-to-right pass: a name without the substring is unchanged, and when
  the first occurrence starts right after \<open>u\<close>, that occurrence is removed and the rest
  \<open>v\<close> of the name is treated in the same way.
\<close>

theorem C7_all_occurrences:
  "(str_find ''.csv'' s = None \<longrightarrow> str_remove ''.csv'' s = s) \<and>
   (str_find ''.csv'' (u @ ''.csv'' @ v) = Some (length u) \<longrightarrow>
      str_remove ''.csv'' (u @ ''.csv'' @ v) = u @ str_remove ''.csv'' v)"
  using str_remove_absent [of "''.csv''" s] str_remove_at_first [of "''.csv''" u v]
  by auto

theorem C7_all_occurrences_witness:
  "str_find ''.csv'' ''ab'' = None \<and> str_remove ''.csv'' ''ab'' = ''ab'' \<and>
   str_find ''.csv'' (''a'' @ ''.csv'' @ ''b.csv'') = Some (length ''a'') \<and>
   str_remove ''.csv'' (''a'' @ ''.csv'' @ ''b.csv'') = ''a'' @ str_remove ''.csv'' ''b.csv''"
  using C7_all_occurrences [of "''ab''" "''a''" "''b.csv''"]
  by simp

section \<open>Properties of the catalog\<close>











text \<open>
  In the polars variant an empty enabled set switches the not-in-config filter off: no
  file gets that verdict, and the catalog is the one built with config filtering disabled.
\<close>

lemma filter_verdict_empty_enabled:
  "filter_verdict fs filter_ignored ignore_set filter_empty True {} p \<noteq> Filtered_not_in_config"
  by (simp add: filter_verdict_def Let_def)

lemma get_cleaned_csv_names_empty_enabled:
  "get_cleaned_csv_names fs ps filter_ignored ignore_set filter_empty True {} =
   get_cleaned_csv_names fs ps filter_ignored ignore_set filter_empty False enabled"
  by (simp add: get_cleaned_csv_names_def get_cleaned_csv_names_flat_def filter_verdict_def
      Let_def)

text \<open>
  C4 (the pandas variant breaks the claim): with config filtering on, an empty enabled set
  and a file that passes the ignore and empty filters, \<^verbatim>\<open>reedit.py\<close> skips the file as
  not in the configuration and the catalog is empty, although it has just printed that all
  files will be processed.
\<close>

theorem C4_reedit_filters_all:
  "reedit_filter_verdict (\<lambda>p. True) True {} True True {}
     \<lparr>parent = ''Samsung Health/dump'', name = ''com.samsung.health.sleep.20230101.csv''\<rparr>
     = Filtered_not_in_config \<and>
   reedit_get_cleaned_csv_names (\<lambda>p. True)
     [\<lparr>parent = ''Samsung Health/dump'', name = ''com.samsung.health.sleep.20230101.csv''\<rparr>]
     True {} True True {} = []"
  by (simp add: reedit_get_cleaned_csv_names_def reedit_get_cleaned_csv_names_flat_def
      reedit_filter_verdict_def sort_categories_def)




section \<open>Properties of the combination engine\<close>

lemma run_combination_sources:
  "fst (run_combination L fs ps combo) = combo\<lparr>sources := sort_key sort_priority (sources combo)\<rparr>"
  by (simp add: run_combination_def Let_def)

lemma finish_output_has_rows:
  "finish_combination L combo st = Output_created f out \<Longrightarrow>
     \<exists>df. combined_df st = Some df \<and> 0 < height df"
  by (auto simp: finish_combination_def is_empty_def Let_def split: option.splits if_splits)

lemma finish_no_rows:
  "combined_df st = Some df \<Longrightarrow> height df = 0 \<Longrightarrow>
     finish_combination L combo st = No_data_to_output"
  by (simp add: finish_combination_def is_empty_def)





text \<open>
  C9 (as stated, refuted): a combination that lists \<^verbatim>\<open>.sleep\<close> (priority 2) before
  \<^verbatim>\<open>.steps\<close> (priority 1) has its sources in the other order after the run.
\<close>

theorem C9_config_changed_counterexample:
  "map (sources \<circ> snd)
     (fst (process_data_combinations raising_library Map.empty []
        [(''daily'', \<lparr>output_file = Some ''daily.csv'', sources = [sleep_source, steps_source],
                      output_config = default_output\<rparr>)]))
   \<noteq> [[sleep_source, steps_source]]"
  by code_simp

text \<open>
  C9 (amended): after the run every combination is what it was before, except that its
  sources are sorted by ascending priority (an absent priority counts as 999) by a stable
  sort; nothing else of the configuration changes.
\<close>

theorem C9_sources_sorted_in_place:
  "fst (process_data_combinations L fs ps config) =
     map (\<lambda>(combo_name, combo).
            (combo_name, combo\<lparr>sources := sort_key sort_priority (sources combo)\<rparr>)) config"
  by (simp add: process_data_combinations_def run_combination_sources)

text \<open>
  C10: an output file is written only when the merged table exists and has at least one
  row; when the sources load and the merged table has no rows, the combination ends with
  the logged outcome \<^verbatim>\<open>debug_no_data_to_output\<close> and no file.
\<close>

theorem C10_output_only_with_rows:
  "(snd (run_combination L fs ps combo) = Output_created f out \<longrightarrow>
      (\<exists>df. combined_df (process_sources L fs ps (sort_key sort_priority (sources combo))
                           initial_state) = Some df \<and> 0 < height df)) \<and>
   (sources combo \<noteq> [] \<and>
    combined_df (process_sources L fs ps (sort_key sort_priority (sources combo))
                   initial_state) = Some df0 \<and> height df0 = 0 \<longrightarrow>
      snd (run_combination L fs ps combo) = No_data_to_output)"
  by (auto simp: run_combination_def Let_def dest: finish_output_has_rows
      intro: finish_no_rows)

theorem C10_output_only_with_rows_witness:
  "(snd (run_combination raising_library (only_steps [(''count'', (Numeric, [Num 5]))])
           [steps_path]
           \<lparr>output_file = Some ''daily.csv'', sources = [steps_source],
            output_config = default_output\<rparr>)
      = Output_created ''daily.csv'' [(''count'', (Numeric, [Num 5]))] \<and>
    combined_df (process_sources raising_library (only_steps [(''count'', (Numeric, [Num 5]))])
                   [steps_path] (sort_key sort_priority [steps_source]) initial_state)
      = Some [(''count'', (Numeric, [Num 5]))]) \<and>
   (combined_df (process_sources raising_library (only_steps [(''count'', (Numeric, []))])
                   [steps_path] (sort_key sort_priority [steps_source]) initial_state)
      = Some [(''count'', (Numeric, []))] \<and>
    height [(''count'', (Numeric, []))] = 0 \<and>
    snd (run_combination raising_library (only_steps [(''count'', (Numeric, []))])
           [steps_path]
           \<lparr>output_file = Some ''daily.csv'', sources = [steps_source],
            output_config = default_output\<rparr>) = No_data_to_output)"
proof -
  have a: "snd (run_combination raising_library (only_steps [(''count'', (Numeric, [Num 5]))])
           [steps_path]
           \<lparr>output_file = Some ''daily.csv'', sources = [steps_source],
            output_config = default_output\<rparr>)
      = Output_created ''daily.csv'' [(''count'', (Numeric, [Num 5]))]"
    by code_simp
  have b: "combined_df (process_sources raising_library
                   (only_steps [(''count'', (Numeric, [Num 5]))])
                   [steps_path] (sort_key sort_priority [steps_source]) initial_state)
      = Some [(''count'', (Numeric, [Num 5]))]"
    by code_simp
  have c: "combined_df (process_sources raising_library (only_steps [(''count'', (Numeric, []))])
                   [steps_path] (sort_key sort_priority [steps_source]) initial_state)
      = Some [(''count'', (Numeric, []))] \<and> height [(''count'', (Numeric, []))] = 0"
    by code_simp
  from c C10_output_only_with_rows
      [where L = raising_library and fs = "only_steps [(''count'', (Numeric, []))]"
         and ps = "[steps_path]"
         and combo = "\<lparr>output_file = Some ''daily.csv'', sources = [steps_source],
            output_config = default_output\<rparr>"
         and ?df0.0 = "[(''count'', (Numeric, []))]"]
  have "snd (run_combination raising_library (only_steps [(''count'', (Numeric, []))])
           [steps_path]
           \<lparr>output_file = Some ''daily.csv'', sources = [steps_source],
            output_config = default_output\<rparr>) = No_data_to_output"
    by simp
  with a b c show ?thesis by blast
qed

section \<open>Properties of the merge key\<close>








lemma strict_parse_raises:
  "Str bad \<in> set cells \<Longrightarrow> parse bad = None \<Longrightarrow> str_to_datetime parse (String, cells) = None"
  by (auto simp: str_to_datetime_def list_ex_iff intro!: bexI [of _ "Str bad"])







lemma reedit_convert_strings_coerces:
  "i < length cs \<Longrightarrow> cs ! i = Str s \<Longrightarrow>
     reedit_convert_strings parse cs ! i =
       (case parse s of None \<Rightarrow> Null | Some n \<Rightarrow> Date (n div 86400000))"
  by (simp add: reedit_convert_strings_def)







text \<open>
  C5 (the polars variant breaks the claim): when the key column is a string column and one
  of its values does not parse, the conversion raises and the table stays as it was: no
  value of the column is converted and the bad one does not become null.
\<close>

theorem C5_strict_parse:
  "map_of df k = Some (String, cells) \<and> Str bad \<in> set cells \<and> parse bad = None \<longrightarrow>
     normalize_key parse use_datetime k df = df"
  using strict_parse_raises [of bad cells parse]
  by (auto simp: normalize_key_def convert_key_def split: option.splits)

theorem C5_strict_parse_witness:
  "map_of [(''day_time'', (String, [Str ''2023-01-01 12:00:00'', Str ''unknown'']))] ''day_time''
     = Some (String, [Str ''2023-01-01 12:00:00'', Str ''unknown'']) \<and>
   Str ''unknown'' \<in> set [Str ''2023-01-01 12:00:00'', Str ''unknown''] \<and>
   example_parse ''unknown'' = None \<and>
   example_parse ''2023-01-01 12:00:00'' = Some 1672574400000 \<and>
   normalize_key example_parse False ''day_time''
     [(''day_time'', (String, [Str ''2023-01-01 12:00:00'', Str ''unknown'']))]
   = [(''day_time'', (String, [Str ''2023-01-01 12:00:00'', Str ''unknown'']))] \<and>
   reedit_convert_strings example_parse [Str ''2023-01-01 12:00:00'', Str ''unknown'']
   = [Date 19358, Null]"
proof -
  have h: "map_of [(''day_time'', (String, [Str ''2023-01-01 12:00:00'', Str ''unknown'']))] ''day_time''
     = Some (String, [Str ''2023-01-01 12:00:00'', Str ''unknown'']) \<and>
   Str ''unknown'' \<in> set [Str ''2023-01-01 12:00:00'', Str ''unknown''] \<and>
   example_parse ''unknown'' = None \<and>
   example_parse ''2023-01-01 12:00:00'' = Some 1672574400000"
    by (simp add: example_parse_def)
  have r: "reedit_convert_strings example_parse [Str ''2023-01-01 12:00:00'', Str ''unknown'']
   = [Date 19358, Null]"
    by code_simp
  from h C5_strict_parse
    [where df = "[(''day_time'', (String, [Str ''2023-01-01 12:00:00'', Str ''unknown'']))]"
       and k = "''day_time''" and cells = "[Str ''2023-01-01 12:00:00'', Str ''unknown'']"
       and bad = "''unknown''" and parse = example_parse and use_datetime = False]
  have "normalize_key example_parse False ''day_time''
     [(''day_time'', (String, [Str ''2023-01-01 12:00:00'', Str ''unknown'']))]
   = [(''day_time'', (String, [Str ''2023-01-01 12:00:00'', Str ''unknown'']))]"
    by blast
  with h r show ?thesis by blast
qed

end
